theory Spec2Isabelle
  imports Main
begin

section \<open>Values shared by the environment module and the API client\<close>

text \<open>
  \<^verbatim>\<open>process.env\<close> is a mapping from variable names to strings; a variable that
  is not set reads as \<^verbatim>\<open>undefined\<close>, modelled as \<open>None\<close>. Objects whose
  properties are strings or \<^verbatim>\<open>undefined\<close> (the \<^verbatim>\<open>runtimeEnv\<close> object, the
  exported \<^verbatim>\<open>env\<close>, \<^verbatim>\<open>localStorage\<close>, request headers) are
  modelled the same way.
\<close>

type_synonym js_object = "string \<rightharpoonup> string"

text \<open>JavaScript truthiness of a value of type \<^verbatim>\<open>string | undefined | null\<close>.\<close>

fun truthy :: "string option \<Rightarrow> bool" where
  "truthy None = False"
| "truthy (Some s) = (s \<noteq> [])"

text \<open>A thrown \<^verbatim>\<open>new Error(message)\<close>.\<close>

datatype js_error = Error string

section \<open>The API client: \<^verbatim>\<open>src/lib/api-client.ts\<close>\<close>

subsection \<open>Base URL and construction\<close>

text \<open>
  \<^verbatim>\<open>getBaseURL\<close> reads the exported configuration \<^verbatim>\<open>env\<close> and, separately,
  the raw \<^verbatim>\<open>process.env\<close>. Both are arguments of the model; a throw is \<open>Inl\<close>.
\<close>

definition getBaseURL :: "js_object \<Rightarrow> js_object \<Rightarrow> js_error + string" where
  "getBaseURL env process_env =
     (case env ''NEXT_PUBLIC_API_URL'' of
        Some u \<Rightarrow>
          if truthy (Some u) then Inr u
          else if process_env ''NODE_ENV'' = Some ''production''
          then Inl (Error (''NEXT_PUBLIC_API_URL is required in production. '' @
                           ''Add it to your environment variables.''))
          else Inr ''http://localhost:3000/api''
      | None \<Rightarrow>
          if process_env ''NODE_ENV'' = Some ''production''
          then Inl (Error (''NEXT_PUBLIC_API_URL is required in production. '' @
                           ''Add it to your environment variables.''))
          else Inr ''http://localhost:3000/api'')"

text \<open>The options handed to \<^verbatim>\<open>axios.create\<close>.\<close>

record axios_create_options =
  baseURL :: string
  timeout :: nat
  default_headers :: "(string \<times> string) list"

text \<open>
  Evaluating the module builds the singleton; when \<^verbatim>\<open>getBaseURL()\<close> throws, the
  module evaluation throws and no client exists.
\<close>

definition apiClient :: "js_object \<Rightarrow> js_object \<Rightarrow> js_error + axios_create_options" where
  "apiClient env process_env =
     (case getBaseURL env process_env of
        Inl e \<Rightarrow> Inl e
      | Inr b \<Rightarrow> Inr \<lparr>baseURL = b, timeout = 10000,
                      default_headers = [(''Content-Type'', ''application/json'')]\<rparr>)"

subsection \<open>Request interceptor\<close>

text \<open>
  The fields of \<^verbatim>\<open>InternalAxiosRequestConfig\<close> that matter here
  (\<open>http_method\<close> is its \<^verbatim>\<open>method\<close>, \<open>req_timeout\<close> its \<^verbatim>\<open>timeout\<close>);
  every other field lives in the record's extension part. The handler assigns
  \<^verbatim>\<open>config.headers.Authorization\<close> and returns the same object.

  The browser is \<open>Some localStorage\<close>; on the server \<^verbatim>\<open>typeof window\<close> is
  \<^verbatim>\<open>"undefined"\<close> and the argument is \<open>None\<close>. \<^verbatim>\<open>localStorage.getItem\<close>
  returns \<^verbatim>\<open>null\<close> for a missing key, which is \<open>None\<close> of the mapping.
\<close>

record request_config =
  url :: "string option"
  http_method :: "string option"
  data :: "string option"
  req_timeout :: nat
  headers :: js_object

definition request_onFulfilled ::
  "js_object option \<Rightarrow> 'a request_config_scheme \<Rightarrow> 'a request_config_scheme" where
  "request_onFulfilled window cfg =
     (case window of
        None \<Rightarrow> cfg
      | Some localStorage \<Rightarrow>
          (case localStorage ''auth_token'' of
             None \<Rightarrow> cfg
           | Some token \<Rightarrow>
               if truthy (Some token)
               then cfg\<lparr>headers := (headers cfg)(''Authorization'' \<mapsto> ''Bearer '' @ token)\<rparr>
               else cfg))"

subsection \<open>Response interceptor\<close>

text \<open>
  An \<^verbatim>\<open>AxiosError\<close>: its message, the response (absent for a network-level
  failure) and the request configuration (optional as well).
\<close>

record axios_response =
  status :: nat

record axios_error =
  message :: string
  response :: "axios_response option"
  config :: "request_config option"

text \<open>Decimal rendering of a number inside a template string.\<close>

definition digit_char :: "nat \<Rightarrow> char" where
  "digit_char d = char_of (48 + d)"

fun show_nat :: "nat \<Rightarrow> string" where
  "show_nat n = (if n < 10 then [digit_char n] else show_nat (n div 10) @ [digit_char (n mod 10)])"

text \<open>\<^verbatim>\<open>${x}\<close> of an optional value prints \<^verbatim>\<open>undefined\<close> when it is missing.\<close>

definition template_string :: "string option \<Rightarrow> string" where
  "template_string x = (case x of None \<Rightarrow> ''undefined'' | Some s \<Rightarrow> s)"

text \<open>
  A promise settles as rejected (\<open>Inl\<close>) or fulfilled (\<open>Inr\<close>). Each call of
  \<^verbatim>\<open>console.error\<close> is the list of its arguments; a handler returns the calls
  it made, in order, with the promise it returns.
\<close>

type_synonym console = "string list list"

definition error_status :: "axios_error \<Rightarrow> nat option" where
  "error_status error = (case response error of None \<Rightarrow> None | Some r \<Rightarrow> Some (status r))"

definition error_url :: "axios_error \<Rightarrow> string option" where
  "error_url error = (case config error of None \<Rightarrow> None | Some c \<Rightarrow> url c)"

definition response_onRejected :: "axios_error \<Rightarrow> console \<times> (axios_error + 'r)" where
  "response_onRejected error =
     (let status = error_status error;
          url = template_string (error_url error);
          log =
            (if status = Some 401 then [[''[401 Unauthorized] '' @ url]]
             else if status = Some 403 then [[''[403 Forbidden] '' @ url]]
             else if status = Some 404 then [[''[404 Not Found] '' @ url]]
             else if status = Some 500 then [[''[500 Server Error] '' @ url]]
             else [[''[API Error '' @ template_string (map_option show_nat status) @ ''] '' @ url,
                    message error]])
      in (log, Inl error))"

definition response_onFulfilled :: "'r \<Rightarrow> console \<times> (axios_error + 'r)" where
  "response_onFulfilled res = ([], Inr res)"

text \<open>The pair of handlers applied to the outcome of a request.\<close>

definition response_interceptor :: "axios_error + 'r \<Rightarrow> console \<times> (axios_error + 'r)" where
  "response_interceptor outcome =
     (case outcome of
        Inl error \<Rightarrow> response_onRejected error
      | Inr res \<Rightarrow> response_onFulfilled res)"

section \<open>The environment module: \<^verbatim>\<open>src/env.ts\<close>\<close>

subsection \<open>The options object passed to \<^verbatim>\<open>createEnv\<close>\<close>

text \<open>
  The zod schemas the module declares, as terms: \<^verbatim>\<open>z.enum([...])\<close>,
  \<^verbatim>\<open>z.string()\<close>, and the chained \<^verbatim>\<open>.url()\<close>, \<^verbatim>\<open>.min(n)\<close>,
  \<^verbatim>\<open>.optional()\<close> and \<^verbatim>\<open>.default(d)\<close>.
\<close>

datatype zod =
    ZEnum "string list"
  | ZString
  | ZUrl zod
  | ZMin nat zod
  | ZOptional zod
  | ZDefault zod string

record create_env_options =
  server :: "(string \<times> zod) list"
  client :: "(string \<times> zod) list"
  runtimeEnv :: js_object
  skipValidation :: bool
  emptyStringAsUndefined :: bool

text \<open>
  An object literal \<^verbatim>\<open>{ k1: v1, ... }\<close> whose values may be \<^verbatim>\<open>undefined\<close>:
  reading a property that is \<^verbatim>\<open>undefined\<close> and reading one that is not there
  give the same result.
\<close>

definition object_literal :: "(string \<times> string option) list \<Rightarrow> js_object" where
  "object_literal kvs = (\<lambda>k. case map_of kvs k of None \<Rightarrow> None | Some v \<Rightarrow> v)"

text \<open>
  The argument of \<^verbatim>\<open>createEnv\<close>, with the raw environment and the skip flag as
  arguments.
\<close>

definition env_options :: "js_object \<Rightarrow> bool \<Rightarrow> create_env_options" where
  "env_options process_env skip =
     \<lparr>server =
        [(''NODE_ENV'', ZDefault (ZEnum [''development'', ''test'', ''production'']) ''development''),
         (''DATABASE_URL'', ZOptional (ZUrl ZString)),
         (''API_SECRET_KEY'', ZOptional (ZMin 1 ZString))],
      client =
        [(''NEXT_PUBLIC_API_URL'', ZOptional (ZUrl ZString)),
         (''NEXT_PUBLIC_APP_NAME'', ZDefault ZString ''NES App'')],
      runtimeEnv = object_literal
        [(''NODE_ENV'', process_env ''NODE_ENV''),
         (''DATABASE_URL'', process_env ''DATABASE_URL''),
         (''API_SECRET_KEY'', process_env ''API_SECRET_KEY''),
         (''NEXT_PUBLIC_API_URL'', process_env ''NEXT_PUBLIC_API_URL''),
         (''NEXT_PUBLIC_APP_NAME'', process_env ''NEXT_PUBLIC_APP_NAME'')],
      skipValidation = skip,
      emptyStringAsUndefined = True\<rparr>"

text \<open>The five names the schemas declare, server group first.\<close>

definition declared_names :: "string list" where
  "declared_names =
     [''NODE_ENV'', ''DATABASE_URL'', ''API_SECRET_KEY'',
      ''NEXT_PUBLIC_API_URL'', ''NEXT_PUBLIC_APP_NAME'']"

subsection \<open>\<^verbatim>\<open>createEnv\<close>\<close>

text \<open>
  Modelled from the spec: \<^verbatim>\<open>createEnv\<close> and the zod parser belong to the
  packages \<^verbatim>\<open>@t3-oss/env-nextjs\<close> and \<^verbatim>\<open>zod\<close>; the repository only calls
  them. The reading of one schema follows the table of recognized rules: an enum
  accepts its literals, \<^verbatim>\<open>url\<close> and \<^verbatim>\<open>min\<close> constrain a string that is
  present, \<^verbatim>\<open>optional\<close> accepts a missing value, \<^verbatim>\<open>default\<close> replaces a
  missing value. What counts as a well-formed URL is the parameter \<open>isUrl\<close>.
\<close>

datatype zod_issue = Required | InvalidEnumValue | InvalidUrl | TooSmall nat

fun parse :: "(string \<Rightarrow> bool) \<Rightarrow> zod \<Rightarrow> string option \<Rightarrow> zod_issue + string option" where
  "parse isUrl (ZEnum literals) None = Inl Required"
| "parse isUrl (ZEnum literals) (Some v) =
     (if v \<in> set literals then Inr (Some v) else Inl InvalidEnumValue)"
| "parse isUrl ZString None = Inl Required"
| "parse isUrl ZString (Some v) = Inr (Some v)"
| "parse isUrl (ZUrl schema) x =
     (case parse isUrl schema x of
        Inl issue \<Rightarrow> Inl issue
      | Inr None \<Rightarrow> Inr None
      | Inr (Some v) \<Rightarrow> if isUrl v then Inr (Some v) else Inl InvalidUrl)"
| "parse isUrl (ZMin n schema) x =
     (case parse isUrl schema x of
        Inl issue \<Rightarrow> Inl issue
      | Inr None \<Rightarrow> Inr None
      | Inr (Some v) \<Rightarrow> if n \<le> length v then Inr (Some v) else Inl (TooSmall n))"
| "parse isUrl (ZOptional schema) None = Inr None"
| "parse isUrl (ZOptional schema) (Some v) = parse isUrl schema (Some v)"
| "parse isUrl (ZDefault schema d) None = parse isUrl schema (Some d)"
| "parse isUrl (ZDefault schema d) (Some v) = parse isUrl schema (Some v)"

text \<open>
  Modelled from the spec: the failure of the loader, which lists every failing field
  with the reason.
\<close>

datatype config_error = ConfigValidationError "(string \<times> zod_issue) list"

fun field_issues :: "(string \<Rightarrow> bool) \<Rightarrow> js_object \<Rightarrow> string \<times> zod \<Rightarrow> (string \<times> zod_issue) list" where
  "field_issues isUrl raw (name, schema) =
     (case parse isUrl schema (raw name) of Inl issue \<Rightarrow> [(name, issue)] | Inr _ \<Rightarrow> [])"

fun field_value :: "(string \<Rightarrow> bool) \<Rightarrow> js_object \<Rightarrow> string \<times> zod \<Rightarrow> (string \<times> string) list" where
  "field_value isUrl raw (name, schema) =
     (case parse isUrl schema (raw name) of Inr (Some v) \<Rightarrow> [(name, v)] | _ \<Rightarrow> [])"

text \<open>
  Modelled from the spec: validation checks every rule and reports all violated fields
  in one error; without a violation the result holds the parsed values.
\<close>

definition validate ::
  "(string \<Rightarrow> bool) \<Rightarrow> (string \<times> zod) list \<Rightarrow> js_object \<Rightarrow> config_error + js_object" where
  "validate isUrl rules raw =
     (let issues = concat (map (field_issues isUrl raw) rules)
      in if issues = [] then Inr (map_of (concat (map (field_value isUrl raw) rules)))
         else Inl (ConfigValidationError issues))"

text \<open>
  Modelled from the spec: with \<^verbatim>\<open>emptyStringAsUndefined\<close> an entry whose value is
  the empty string is treated as absent before anything else happens.
\<close>

definition drop_empty_strings :: "js_object \<Rightarrow> js_object" where
  "drop_empty_strings raw = (\<lambda>k. if raw k = Some [] then None else raw k)"

text \<open>
  Modelled from the spec: \<^verbatim>\<open>createEnv\<close> of the package, which the repository
  does not contain. Empty strings are dropped first; validation is bypassed when
  \<^verbatim>\<open>skipValidation\<close> is set, and the bypass does not fail. The object handed back
  in that case is built inside the package from the runtime values alone; it is the
  parameter \<open>skipped\<close>, so that nothing proved below depends on what it holds.
\<close>

definition createEnv ::
  "(string \<Rightarrow> bool) \<Rightarrow> (js_object \<Rightarrow> js_object) \<Rightarrow> create_env_options \<Rightarrow> config_error + js_object" where
  "createEnv isUrl skipped opts =
     (let raw = (if emptyStringAsUndefined opts then drop_empty_strings (runtimeEnv opts)
                 else runtimeEnv opts)
      in if skipValidation opts then Inr (skipped raw)
         else validate isUrl (server opts @ client opts) raw)"

text \<open>The loader as a function of the raw environment and the skip flag.\<close>

definition load ::
  "(string \<Rightarrow> bool) \<Rightarrow> (js_object \<Rightarrow> js_object) \<Rightarrow> js_object \<Rightarrow> bool \<Rightarrow> config_error + js_object" where
  "load isUrl skipped process_env skip = createEnv isUrl skipped (env_options process_env skip)"

text \<open>
  The exported \<^verbatim>\<open>env\<close>: the flag is \<^verbatim>\<open>!!process.env.SKIP_ENV_VALIDATION\<close>.
\<close>

definition env ::
  "(string \<Rightarrow> bool) \<Rightarrow> (js_object \<Rightarrow> js_object) \<Rightarrow> js_object \<Rightarrow> config_error + js_object" where
  "env isUrl skipped process_env =
     load isUrl skipped process_env (truthy (process_env ''SKIP_ENV_VALIDATION''))"

subsection \<open>The rule table in the specification's words\<close>

text \<open>
  When a field is violated, row by row: \<^verbatim>\<open>NODE_ENV\<close> is present but not one of
  the three literals; \<^verbatim>\<open>DATABASE_URL\<close> and \<^verbatim>\<open>NEXT_PUBLIC_API_URL\<close> are present
  but not well-formed URLs; \<^verbatim>\<open>API_SECRET_KEY\<close> is present but empty;
  \<^verbatim>\<open>NEXT_PUBLIC_APP_NAME\<close> always has a value. An empty string counts as absent.
  These definitions follow the table of the specification, not the schemas above; the
  loader is compared with them.
\<close>

definition present :: "string option \<Rightarrow> string option" where
  "present v = (if v = Some [] then None else v)"

definition rule_violated :: "(string \<Rightarrow> bool) \<Rightarrow> string \<Rightarrow> string option \<Rightarrow> bool" where
  "rule_violated isUrl name value =
     (case value of
        None \<Rightarrow> False
      | Some v \<Rightarrow>
          if name = ''NODE_ENV'' then v \<noteq> ''development'' \<and> v \<noteq> ''test'' \<and> v \<noteq> ''production''
          else if name = ''DATABASE_URL'' then \<not> isUrl v
          else if name = ''API_SECRET_KEY'' then v = []
          else if name = ''NEXT_PUBLIC_API_URL'' then \<not> isUrl v
          else False)"

definition violated_fields :: "(string \<Rightarrow> bool) \<Rightarrow> js_object \<Rightarrow> string list" where
  "violated_fields isUrl process_env =
     filter (\<lambda>name. rule_violated isUrl name (present (process_env name))) declared_names"

section \<open>Evaluating the API client module\<close>

text \<open>
  \<^verbatim>\<open>api-client.ts\<close> imports \<^verbatim>\<open>env\<close> from the environment module before it
  calls \<^verbatim>\<open>axios.create\<close>: when loading the environment throws, the import
  throws and \<^verbatim>\<open>getBaseURL\<close> is never reached. Both reads of the process
  environment see the same \<^verbatim>\<open>process.env\<close>.
\<close>

datatype module_error = EnvError config_error | ClientError js_error

definition api_client_module ::
  "(string \<Rightarrow> bool) \<Rightarrow> (js_object \<Rightarrow> js_object) \<Rightarrow> js_object \<Rightarrow>
     module_error + axios_create_options" where
  "api_client_module isUrl skipped process_env =
     (case env isUrl skipped process_env of
        Inl e \<Rightarrow> Inl (EnvError e)
      | Inr cfg \<Rightarrow>
          (case apiClient cfg process_env of
             Inl e \<Rightarrow> Inl (ClientError e)
           | Inr c \<Rightarrow> Inr c))"

section \<open>Properties of the API client\<close>

text \<open>The source's two tests and three outcomes, as one conditional.\<close>

lemma getBaseURL_cases:
  "getBaseURL cfg pe =
     (if truthy (cfg ''NEXT_PUBLIC_API_URL'') then
        (case cfg ''NEXT_PUBLIC_API_URL'' of Some u \<Rightarrow> Inr u | None \<Rightarrow> Inr [])
      else if pe ''NODE_ENV'' = Some ''production''
      then Inl (Error ''NEXT_PUBLIC_API_URL is required in production. Add it to your environment variables.'')
      else Inr ''http://localhost:3000/api'')"
  by (simp add: getBaseURL_def split: option.split)

text \<open>
  Claim C1. Constructing the client resolves the base URL in three steps. When the
  configuration's \<^verbatim>\<open>NEXT_PUBLIC_API_URL\<close> is present and non-empty, the client is
  built with it as base URL. Otherwise, when \<^verbatim>\<open>process.env.NODE_ENV\<close> is
  \<^verbatim>\<open>production\<close>, construction fails with the explicit error. Otherwise the client is
  built with \<^verbatim>\<open>http://localhost:3000/api\<close>. The three conditions cover every
  configuration and environment.
\<close>

theorem base_url_resolution:
  "(\<forall>u. cfg ''NEXT_PUBLIC_API_URL'' = Some u \<and> u \<noteq> [] \<longrightarrow>
      apiClient cfg pe = Inr \<lparr>baseURL = u, timeout = 10000,
                              default_headers = [(''Content-Type'', ''application/json'')]\<rparr>) \<and>
   (\<not> truthy (cfg ''NEXT_PUBLIC_API_URL'') \<and> pe ''NODE_ENV'' = Some ''production'' \<longrightarrow>
      apiClient cfg pe =
        Inl (Error ''NEXT_PUBLIC_API_URL is required in production. Add it to your environment variables.'')) \<and>
   (\<not> truthy (cfg ''NEXT_PUBLIC_API_URL'') \<and> pe ''NODE_ENV'' \<noteq> Some ''production'' \<longrightarrow>
      apiClient cfg pe = Inr \<lparr>baseURL = ''http://localhost:3000/api'', timeout = 10000,
                              default_headers = [(''Content-Type'', ''application/json'')]\<rparr>)"
  by (auto simp: apiClient_def getBaseURL_cases)

theorem base_url_resolution_witness:
  "apiClient [''NEXT_PUBLIC_API_URL'' \<mapsto> ''https://api.example.com''] [''NODE_ENV'' \<mapsto> ''production'']
     = Inr \<lparr>baseURL = ''https://api.example.com'', timeout = 10000,
            default_headers = [(''Content-Type'', ''application/json'')]\<rparr> \<and>
   apiClient Map.empty [''NODE_ENV'' \<mapsto> ''production'']
     = Inl (Error ''NEXT_PUBLIC_API_URL is required in production. Add it to your environment variables.'') \<and>
   apiClient [''NEXT_PUBLIC_API_URL'' \<mapsto> []] [''NODE_ENV'' \<mapsto> ''development'']
     = Inr \<lparr>baseURL = ''http://localhost:3000/api'', timeout = 10000,
            default_headers = [(''Content-Type'', ''application/json'')]\<rparr>"
  using base_url_resolution [of "[''NEXT_PUBLIC_API_URL'' \<mapsto> ''https://api.example.com'']"
          "[''NODE_ENV'' \<mapsto> ''production'']"]
        base_url_resolution [of Map.empty "[''NODE_ENV'' \<mapsto> ''production'']"]
        base_url_resolution [of "[''NEXT_PUBLIC_API_URL'' \<mapsto> []]" "[''NODE_ENV'' \<mapsto> ''development'']"]
  by simp

text \<open>
  Claim C4. The request interceptor sets \<^verbatim>\<open>Authorization\<close> to
  \<^verbatim>\<open>Bearer <token>\<close> when the token store is available and holds a non-empty value
  under \<^verbatim>\<open>auth_token\<close>. When the store is unavailable, or the token is missing or
  empty, the request is returned as it came, so no header is added. With the token
  \<^verbatim>\<open>abc123\<close> the header is \<^verbatim>\<open>Bearer abc123\<close>.
\<close>

theorem authorization_header_injection:
  "(\<forall>localStorage token.
      window = Some localStorage \<and> localStorage ''auth_token'' = Some token \<and> token \<noteq> [] \<longrightarrow>
      headers (request_onFulfilled window cfg) ''Authorization'' = Some (''Bearer '' @ token)) \<and>
   ((window = None \<or>
     (\<exists>localStorage. window = Some localStorage \<and> \<not> truthy (localStorage ''auth_token''))) \<longrightarrow>
      request_onFulfilled window cfg = cfg)"
  by (auto simp: request_onFulfilled_def split: option.splits)

theorem authorization_header_injection_witness:
  "headers (request_onFulfilled (Some [''auth_token'' \<mapsto> ''abc123''])
      \<lparr>url = Some ''/users'', http_method = Some ''get'', data = None, req_timeout = 10000,
       headers = [''Content-Type'' \<mapsto> ''application/json'']\<rparr>) ''Authorization''
     = Some ''Bearer abc123'' \<and>
   headers (request_onFulfilled (Some Map.empty)
      \<lparr>url = Some ''/users'', http_method = Some ''get'', data = None, req_timeout = 10000,
       headers = [''Content-Type'' \<mapsto> ''application/json'']\<rparr>) ''Authorization'' = None \<and>
   headers (request_onFulfilled None
      \<lparr>url = Some ''/users'', http_method = Some ''get'', data = None, req_timeout = 10000,
       headers = [''Content-Type'' \<mapsto> ''application/json'']\<rparr>) ''Authorization'' = None"
  using authorization_header_injection [of "Some [''auth_token'' \<mapsto> ''abc123'']"
      "\<lparr>url = Some ''/users'', http_method = Some ''get'', data = None, req_timeout = 10000,
       headers = [''Content-Type'' \<mapsto> ''application/json'']\<rparr>"]
    authorization_header_injection [of "Some Map.empty"
      "\<lparr>url = Some ''/users'', http_method = Some ''get'', data = None, req_timeout = 10000,
       headers = [''Content-Type'' \<mapsto> ''application/json'']\<rparr>"]
    authorization_header_injection [of None
      "\<lparr>url = Some ''/users'', http_method = Some ''get'', data = None, req_timeout = 10000,
       headers = [''Content-Type'' \<mapsto> ''application/json'']\<rparr>"]
  by simp

text \<open>
  Claim C9. The request interceptor changes at most the \<^verbatim>\<open>Authorization\<close> entry of
  the headers: the URL, the method, the body, the timeout, every other field of the
  request and every other header come back as they were received, whether or not a
  token is found.
\<close>

theorem request_interceptor_frame:
  "url (request_onFulfilled window cfg) = url cfg \<and>
   http_method (request_onFulfilled window cfg) = http_method cfg \<and>
   data (request_onFulfilled window cfg) = data cfg \<and>
   req_timeout (request_onFulfilled window cfg) = req_timeout cfg \<and>
   request_config.more (request_onFulfilled window cfg) = request_config.more cfg \<and>
   (\<forall>name. name \<noteq> ''Authorization'' \<longrightarrow>
      headers (request_onFulfilled window cfg) name = headers cfg name)"
  by (simp add: request_onFulfilled_def split: option.splits)

theorem request_interceptor_frame_witness:
  "url (request_onFulfilled (Some [''auth_token'' \<mapsto> ''abc123''])
      \<lparr>url = Some ''/users'', http_method = Some ''post'', data = Some ''{}'', req_timeout = 10000,
       headers = [''Content-Type'' \<mapsto> ''application/json'', ''Authorization'' \<mapsto> ''Basic old'']\<rparr>)
     = Some ''/users'' \<and>
   headers (request_onFulfilled (Some [''auth_token'' \<mapsto> ''abc123''])
      \<lparr>url = Some ''/users'', http_method = Some ''post'', data = Some ''{}'', req_timeout = 10000,
       headers = [''Content-Type'' \<mapsto> ''application/json'', ''Authorization'' \<mapsto> ''Basic old'']\<rparr>)
      ''Content-Type'' = Some ''application/json''"
  using request_interceptor_frame [of "Some [''auth_token'' \<mapsto> ''abc123'']"
      "\<lparr>url = Some ''/users'', http_method = Some ''post'', data = Some ''{}'', req_timeout = 10000,
       headers = [''Content-Type'' \<mapsto> ''application/json'', ''Authorization'' \<mapsto> ''Basic old'']\<rparr>"]
  by simp

text \<open>
  Claim C5. A failure that passes through the response interceptor is rejected again
  with the very same error after exactly one call of \<^verbatim>\<open>console.error\<close>; it is
  never turned into a fulfilled result. A failure with status 404 is logged as
  \<^verbatim>\<open>[404 Not Found]\<close> followed by the URL, and since the rejected error is the
  one received, it still carries status 404.
\<close>

theorem response_failure_propagated:
  "\<exists>log. (response_interceptor (Inl error) :: console \<times> (axios_error + 'r)) = (log, Inl error) \<and>
      length log = 1 \<and>
      (error_status error = Some 404 \<longrightarrow>
         log = [[''[404 Not Found] '' @ template_string (error_url error)]])"
  by (simp add: response_interceptor_def response_onRejected_def Let_def)

theorem response_failure_propagated_witness:
  "(response_interceptor (Inl
      \<lparr>message = ''Request failed with status code 404'', response = Some \<lparr>status = 404\<rparr>,
       config = Some \<lparr>url = Some ''/users/42'', http_method = Some ''get'', data = None,
                      req_timeout = 10000, headers = Map.empty\<rparr>\<rparr>)
      :: console \<times> (axios_error + string)) =
   ([[''[404 Not Found] /users/42'']],
    Inl \<lparr>message = ''Request failed with status code 404'', response = Some \<lparr>status = 404\<rparr>,
         config = Some \<lparr>url = Some ''/users/42'', http_method = Some ''get'', data = None,
                        req_timeout = 10000, headers = Map.empty\<rparr>\<rparr>)"
proof -
  let ?error = "\<lparr>message = ''Request failed with status code 404'', response = Some \<lparr>status = 404\<rparr>,
       config = Some \<lparr>url = Some ''/users/42'', http_method = Some ''get'', data = None,
                      req_timeout = 10000, headers = Map.empty\<rparr>\<rparr>"
  have st: "error_status ?error = Some 404"
    by (simp add: error_status_def)
  have u: "template_string (error_url ?error) = ''/users/42''"
    by (simp add: error_url_def template_string_def)
  from response_failure_propagated [where 'r = string, of ?error]
  show ?thesis
    unfolding st u by auto
qed

section \<open>Properties of the environment module\<close>

subsection \<open>What the loader reads\<close>

lemma runtimeEnv_lookup:
  "runtimeEnv (env_options pe skip) name = (if name \<in> set declared_names then pe name else None)"
  by (simp add: env_options_def object_literal_def declared_names_def)

lemma raw_lookup:
  "drop_empty_strings (runtimeEnv (env_options pe skip)) name =
     (if name \<in> set declared_names then present (pe name) else None)"
  by (simp add: drop_empty_strings_def runtimeEnv_lookup present_def)

lemma env_options_cong:
  assumes "\<forall>name \<in> set declared_names. pe1 name = pe2 name"
  shows "env_options pe1 skip = env_options pe2 skip"
  using assms by (simp add: env_options_def declared_names_def)

lemma load_unfold:
  "load isUrl skipped pe skip =
     (if skip then Inr (skipped (drop_empty_strings (runtimeEnv (env_options pe skip))))
      else validate isUrl (server (env_options pe skip) @ client (env_options pe skip))
             (drop_empty_strings (runtimeEnv (env_options pe skip))))"
  by (simp add: load_def createEnv_def Let_def env_options_def)

lemma rules_env_options:
  "server (env_options pe skip) @ client (env_options pe skip) =
     [(''NODE_ENV'', ZDefault (ZEnum [''development'', ''test'', ''production'']) ''development''),
      (''DATABASE_URL'', ZOptional (ZUrl ZString)),
      (''API_SECRET_KEY'', ZOptional (ZMin 1 ZString)),
      (''NEXT_PUBLIC_API_URL'', ZOptional (ZUrl ZString)),
      (''NEXT_PUBLIC_APP_NAME'', ZDefault ZString ''NES App'')]"
  by (simp add: env_options_def)

lemma issues_NODE_ENV:
  "map fst (field_issues isUrl raw
      (''NODE_ENV'', ZDefault (ZEnum [''development'', ''test'', ''production'']) ''development'')) =
     (if rule_violated isUrl ''NODE_ENV'' (raw ''NODE_ENV'') then [''NODE_ENV''] else [])"
  by (cases "raw ''NODE_ENV''") (auto simp: rule_violated_def)

lemma issues_DATABASE_URL:
  "map fst (field_issues isUrl raw (''DATABASE_URL'', ZOptional (ZUrl ZString))) =
     (if rule_violated isUrl ''DATABASE_URL'' (raw ''DATABASE_URL'') then [''DATABASE_URL''] else [])"
  by (cases "raw ''DATABASE_URL''") (auto simp: rule_violated_def)

lemma issues_NEXT_PUBLIC_API_URL:
  "map fst (field_issues isUrl raw (''NEXT_PUBLIC_API_URL'', ZOptional (ZUrl ZString))) =
     (if rule_violated isUrl ''NEXT_PUBLIC_API_URL'' (raw ''NEXT_PUBLIC_API_URL'')
      then [''NEXT_PUBLIC_API_URL''] else [])"
  by (cases "raw ''NEXT_PUBLIC_API_URL''") (auto simp: rule_violated_def)

lemma issues_API_SECRET_KEY:
  "map fst (field_issues isUrl raw (''API_SECRET_KEY'', ZOptional (ZMin 1 ZString))) =
     (if rule_violated isUrl ''API_SECRET_KEY'' (raw ''API_SECRET_KEY'') then [''API_SECRET_KEY''] else [])"
  by (cases "raw ''API_SECRET_KEY''") (auto simp: rule_violated_def Suc_le_eq)

lemma issues_APP_NAME:
  "map fst (field_issues isUrl raw (''NEXT_PUBLIC_APP_NAME'', ZDefault ZString ''NES App'')) =
     (if rule_violated isUrl ''NEXT_PUBLIC_APP_NAME'' (raw ''NEXT_PUBLIC_APP_NAME'') then [''NEXT_PUBLIC_APP_NAME''] else [])"
  by (cases "raw ''NEXT_PUBLIC_APP_NAME''") (auto simp: rule_violated_def)

lemma issue_fields:
  "map fst (concat (map (field_issues isUrl (drop_empty_strings (runtimeEnv (env_options pe skip))))
      (server (env_options pe skip) @ client (env_options pe skip)))) = violated_fields isUrl pe"
proof -
  let ?raw = "drop_empty_strings (runtimeEnv (env_options pe skip))"
  have raw: "?raw ''NODE_ENV'' = present (pe ''NODE_ENV'')"
    "?raw ''DATABASE_URL'' = present (pe ''DATABASE_URL'')"
    "?raw ''API_SECRET_KEY'' = present (pe ''API_SECRET_KEY'')"
    "?raw ''NEXT_PUBLIC_API_URL'' = present (pe ''NEXT_PUBLIC_API_URL'')"
    "?raw ''NEXT_PUBLIC_APP_NAME'' = present (pe ''NEXT_PUBLIC_APP_NAME'')"
    by (simp_all add: raw_lookup declared_names_def)
  have "map fst (concat (map (field_issues isUrl ?raw)
          (server (env_options pe skip) @ client (env_options pe skip)))) =
        map fst (field_issues isUrl ?raw
          (''NODE_ENV'', ZDefault (ZEnum [''development'', ''test'', ''production'']) ''development'')) @
        map fst (field_issues isUrl ?raw (''DATABASE_URL'', ZOptional (ZUrl ZString))) @
        map fst (field_issues isUrl ?raw (''API_SECRET_KEY'', ZOptional (ZMin 1 ZString))) @
        map fst (field_issues isUrl ?raw (''NEXT_PUBLIC_API_URL'', ZOptional (ZUrl ZString))) @
        map fst (field_issues isUrl ?raw (''NEXT_PUBLIC_APP_NAME'', ZDefault ZString ''NES App''))"
    unfolding rules_env_options by (simp del: field_issues.simps)
  also have "\<dots> = violated_fields isUrl pe"
    unfolding issues_NODE_ENV issues_DATABASE_URL issues_NEXT_PUBLIC_API_URL
      issues_API_SECRET_KEY issues_APP_NAME raw
    by (simp add: violated_fields_def declared_names_def)
  finally show ?thesis .
qed

lemma load_validated:
  "load isUrl skipped pe False =
     (if violated_fields isUrl pe = []
      then Inr (map_of (concat (map (field_value isUrl (drop_empty_strings (runtimeEnv (env_options pe False))))
                  (server (env_options pe False) @ client (env_options pe False)))))
      else Inl (ConfigValidationError
             (concat (map (field_issues isUrl (drop_empty_strings (runtimeEnv (env_options pe False))))
                  (server (env_options pe False) @ client (env_options pe False))))))"
proof -
  have "violated_fields isUrl pe = [] \<longleftrightarrow>
        concat (map (field_issues isUrl (drop_empty_strings (runtimeEnv (env_options pe False))))
                  (server (env_options pe False) @ client (env_options pe False))) = []"
    unfolding issue_fields [of isUrl pe False, symmetric] by simp
  then show ?thesis
    by (simp add: load_unfold validate_def Let_def)
qed

lemma API_SECRET_KEY_never_violated: "''API_SECRET_KEY'' \<notin> set (violated_fields isUrl pe)"
  by (auto simp: violated_fields_def rule_violated_def present_def split: option.splits)


lemma env_reads_six_names:
  assumes "\<forall>name \<in> set declared_names. pe1 name = pe2 name"
    and "truthy (pe1 ''SKIP_ENV_VALIDATION'') = truthy (pe2 ''SKIP_ENV_VALIDATION'')"
  shows "env isUrl skipped pe1 = env isUrl skipped pe2"
  using env_options_cong [OF assms(1)] assms(2) by (simp add: env_def load_def)


text \<open>On the validated path an empty environment yields the two defaults.\<close>

lemma load_empty_environment_validated:
  "\<exists>cfg. load isUrl skipped Map.empty False = Inr cfg \<and>
     cfg ''NODE_ENV'' = Some ''development'' \<and> cfg ''NEXT_PUBLIC_APP_NAME'' = Some ''NES App'' \<and>
     cfg ''NEXT_PUBLIC_API_URL'' = None"
  by (simp add: load_validated violated_fields_def declared_names_def rule_violated_def
        present_def rules_env_options raw_lookup)

subsection \<open>Claims about the loader\<close>



text \<open>
  Claim C6. Without the skip flag, an environment that violates one or more rules of
  the table makes the loader fail with one \<^verbatim>\<open>ConfigValidationError\<close> whose fields
  are exactly the violated fields, in schema order; so with two or more violations all
  of them are listed, not only the first. A \<^verbatim>\<open>NODE_ENV\<close> that is present (not
  empty) and not one of the three literals is among the violated fields, hence named
  by that error next to the violations of the other fields.
\<close>

theorem validation_reports_every_violation:
  "(violated_fields isUrl pe \<noteq> [] \<longrightarrow>
      (\<exists>issues. load isUrl skipped pe False = Inl (ConfigValidationError issues) \<and>
                map fst issues = violated_fields isUrl pe)) \<and>
   (\<forall>v. pe ''NODE_ENV'' = Some v \<and> v \<noteq> [] \<and>
        v \<noteq> ''development'' \<and> v \<noteq> ''test'' \<and> v \<noteq> ''production'' \<longrightarrow>
      ''NODE_ENV'' \<in> set (violated_fields isUrl pe))"
proof
  show "violated_fields isUrl pe \<noteq> [] \<longrightarrow>
      (\<exists>issues. load isUrl skipped pe False = Inl (ConfigValidationError issues) \<and>
                map fst issues = violated_fields isUrl pe)"
    using issue_fields [of isUrl pe False] by (simp add: load_validated)
next
  show "\<forall>v. pe ''NODE_ENV'' = Some v \<and> v \<noteq> [] \<and>
        v \<noteq> ''development'' \<and> v \<noteq> ''test'' \<and> v \<noteq> ''production'' \<longrightarrow>
      ''NODE_ENV'' \<in> set (violated_fields isUrl pe)"
    by (simp add: violated_fields_def declared_names_def rule_violated_def present_def)
qed

theorem validation_reports_every_violation_witness:
  "violated_fields (\<lambda>s. take 7 s = ''http://'')
      [''NODE_ENV'' \<mapsto> ''staging'', ''NEXT_PUBLIC_API_URL'' \<mapsto> ''not a url'']
     = [''NODE_ENV'', ''NEXT_PUBLIC_API_URL''] \<and>
   (\<exists>issues. load (\<lambda>s. take 7 s = ''http://'') (\<lambda>raw. raw)
        [''NODE_ENV'' \<mapsto> ''staging'', ''NEXT_PUBLIC_API_URL'' \<mapsto> ''not a url''] False
      = Inl (ConfigValidationError issues) \<and>
      map fst issues = [''NODE_ENV'', ''NEXT_PUBLIC_API_URL''])"
proof -
  have v: "violated_fields (\<lambda>s. take 7 s = ''http://'')
      [''NODE_ENV'' \<mapsto> ''staging'', ''NEXT_PUBLIC_API_URL'' \<mapsto> ''not a url'']
     = [''NODE_ENV'', ''NEXT_PUBLIC_API_URL'']"
    by (simp add: violated_fields_def declared_names_def rule_violated_def present_def)
  show ?thesis
    using validation_reports_every_violation [of "\<lambda>s. take 7 s = ''http://''"
        "[''NODE_ENV'' \<mapsto> ''staging'', ''NEXT_PUBLIC_API_URL'' \<mapsto> ''not a url'']" "\<lambda>raw. raw"]
    unfolding v by simp
qed

text \<open>
  Claim C7. Two raw environments that agree on the five declared names give the same
  options object and therefore the same outcome of the loader, under the same skip
  flag: entries under any other name are never read, neither rejected nor copied into
  the result. (The exported \<^verbatim>\<open>env\<close> takes its flag from
  \<^verbatim>\<open>SKIP_ENV_VALIDATION\<close>, the one further name the module reads; see
  \<open>env_reads_six_names\<close>.)
\<close>

theorem unknown_names_ignored:
  assumes "\<forall>name \<in> set declared_names. pe1 name = pe2 name"
  shows "env_options pe1 skip = env_options pe2 skip \<and>
         load isUrl skipped pe1 skip = load isUrl skipped pe2 skip"
  using env_options_cong [OF assms] by (simp add: load_def)

theorem unknown_names_ignored_witness:
  "load (\<lambda>s. take 7 s = ''http://'') (\<lambda>raw. raw)
      [''NODE_ENV'' \<mapsto> ''test'', ''HOME'' \<mapsto> ''/root'', ''PATH'' \<mapsto> ''/bin''] False =
   load (\<lambda>s. take 7 s = ''http://'') (\<lambda>raw. raw)
      [''NODE_ENV'' \<mapsto> ''test'', ''EDITOR'' \<mapsto> ''vi''] False"
  using unknown_names_ignored [of "[''NODE_ENV'' \<mapsto> ''test'', ''HOME'' \<mapsto> ''/root'', ''PATH'' \<mapsto> ''/bin'']"
      "[''NODE_ENV'' \<mapsto> ''test'', ''EDITOR'' \<mapsto> ''vi'']" False "\<lambda>s. take 7 s = ''http://''" "\<lambda>raw. raw"]
  by (simp add: declared_names_def)

section \<open>Properties of the API client module as a whole\<close>

text \<open>
  What the loaded configuration holds under \<^verbatim>\<open>NEXT_PUBLIC_API_URL\<close> on the
  validated path, and which call of the loader the exported \<^verbatim>\<open>env\<close> is when
  \<^verbatim>\<open>SKIP_ENV_VALIDATION\<close> is not set.
\<close>

lemma map_of_field_value_other:
  "k \<noteq> name \<Longrightarrow> map_of (field_value isUrl raw (name, schema)) k = None"
  by (simp split: sum.split option.split)

lemma validated_config_API_URL:
  assumes "raw ''NEXT_PUBLIC_API_URL'' = None"
  shows "map_of (concat (map (field_value isUrl raw)
           (server (env_options pe skip) @ client (env_options pe skip)))) ''NEXT_PUBLIC_API_URL'' = None"
proof -
  have own: "field_value isUrl raw (''NEXT_PUBLIC_API_URL'', ZOptional (ZUrl ZString)) = []"
    using assms by simp
  show ?thesis
    unfolding rules_env_options
    by (simp add: own map_of_field_value_other map_add_def del: field_value.simps)
qed

lemma env_validated:
  assumes "\<not> truthy (pe ''SKIP_ENV_VALIDATION'')"
  shows "env isUrl skipped pe = load isUrl skipped pe False"
  using assms by (simp add: env_def)

text \<open>
  Claim C10, as amended. \<^verbatim>\<open>getBaseURL\<close> decides on production by comparing the
  raw \<^verbatim>\<open>process.env.NODE_ENV\<close> with the string \<^verbatim>\<open>production\<close>: the
  \<^verbatim>\<open>NODE_ENV\<close> held by the loaded configuration has no influence on the result,
  and without a usable \<^verbatim>\<open>NEXT_PUBLIC_API_URL\<close> the call throws exactly when the
  raw value equals \<^verbatim>\<open>production\<close>. Whenever the environment module has loaded a
  configuration without a usable \<^verbatim>\<open>NEXT_PUBLIC_API_URL\<close> and the raw
  \<^verbatim>\<open>NODE_ENV\<close> is not \<^verbatim>\<open>production\<close>, the client is built with the localhost
  fallback. With validation on, that is the case for every environment that violates no
  rule and has no \<^verbatim>\<open>NEXT_PUBLIC_API_URL\<close> (so \<^verbatim>\<open>NODE_ENV\<close> is unset, empty,
  \<^verbatim>\<open>development\<close> or \<^verbatim>\<open>test\<close>). A \<^verbatim>\<open>NODE_ENV\<close> that is present and not
  one of the three literals, such as another spelling of \<^verbatim>\<open>production\<close>, makes
  the environment module fail with an error naming \<^verbatim>\<open>NODE_ENV\<close> before
  \<^verbatim>\<open>getBaseURL\<close> runs, unless validation is skipped.
\<close>

theorem production_read_from_process_env:
  "getBaseURL (cfg(''NODE_ENV'' := validated)) pe = getBaseURL cfg pe \<and>
   (\<not> truthy (cfg ''NEXT_PUBLIC_API_URL'') \<longrightarrow>
      (isl (getBaseURL cfg pe) \<longleftrightarrow> pe ''NODE_ENV'' = Some ''production'')) \<and>
   (env isUrl skipped pe = Inr cfg \<and> \<not> truthy (cfg ''NEXT_PUBLIC_API_URL'') \<and>
    pe ''NODE_ENV'' \<noteq> Some ''production'' \<longrightarrow>
      api_client_module isUrl skipped pe =
        Inr \<lparr>baseURL = ''http://localhost:3000/api'', timeout = 10000,
             default_headers = [(''Content-Type'', ''application/json'')]\<rparr>) \<and>
   (\<not> truthy (pe ''SKIP_ENV_VALIDATION'') \<and> \<not> truthy (pe ''NEXT_PUBLIC_API_URL'') \<and>
    violated_fields isUrl pe = [] \<and> pe ''NODE_ENV'' \<noteq> Some ''production'' \<longrightarrow>
      api_client_module isUrl skipped pe =
        Inr \<lparr>baseURL = ''http://localhost:3000/api'', timeout = 10000,
             default_headers = [(''Content-Type'', ''application/json'')]\<rparr>) \<and>
   (\<forall>v. \<not> truthy (pe ''SKIP_ENV_VALIDATION'') \<and> pe ''NODE_ENV'' = Some v \<and> v \<noteq> [] \<and>
        v \<noteq> ''development'' \<and> v \<noteq> ''test'' \<and> v \<noteq> ''production'' \<longrightarrow>
      (\<exists>issues. api_client_module isUrl skipped pe = Inl (EnvError (ConfigValidationError issues)) \<and>
                ''NODE_ENV'' \<in> set (map fst issues)))"
proof (intro conjI)
  show "getBaseURL (cfg(''NODE_ENV'' := validated)) pe = getBaseURL cfg pe"
    by (simp add: getBaseURL_cases)
  show "\<not> truthy (cfg ''NEXT_PUBLIC_API_URL'') \<longrightarrow>
      (isl (getBaseURL cfg pe) \<longleftrightarrow> pe ''NODE_ENV'' = Some ''production'')"
    by (simp add: getBaseURL_cases)
  show "env isUrl skipped pe = Inr cfg \<and> \<not> truthy (cfg ''NEXT_PUBLIC_API_URL'') \<and>
    pe ''NODE_ENV'' \<noteq> Some ''production'' \<longrightarrow>
      api_client_module isUrl skipped pe =
        Inr \<lparr>baseURL = ''http://localhost:3000/api'', timeout = 10000,
             default_headers = [(''Content-Type'', ''application/json'')]\<rparr>"
    by (simp add: api_client_module_def apiClient_def getBaseURL_cases)
  show "\<not> truthy (pe ''SKIP_ENV_VALIDATION'') \<and> \<not> truthy (pe ''NEXT_PUBLIC_API_URL'') \<and>
    violated_fields isUrl pe = [] \<and> pe ''NODE_ENV'' \<noteq> Some ''production'' \<longrightarrow>
      api_client_module isUrl skipped pe =
        Inr \<lparr>baseURL = ''http://localhost:3000/api'', timeout = 10000,
             default_headers = [(''Content-Type'', ''application/json'')]\<rparr>"
  proof (intro impI, elim conjE)
    assume noskip: "\<not> truthy (pe ''SKIP_ENV_VALIDATION'')"
      and nourl: "\<not> truthy (pe ''NEXT_PUBLIC_API_URL'')"
      and valid: "violated_fields isUrl pe = []"
      and mode: "pe ''NODE_ENV'' \<noteq> Some ''production''"
    let ?raw = "drop_empty_strings (runtimeEnv (env_options pe False))"
    define loaded where "loaded = map_of (concat (map (field_value isUrl ?raw)
                  (server (env_options pe False) @ client (env_options pe False))))"
    from nourl have "?raw ''NEXT_PUBLIC_API_URL'' = None"
      by (cases "pe ''NEXT_PUBLIC_API_URL''") (simp_all add: raw_lookup present_def declared_names_def)
    then have absent: "loaded ''NEXT_PUBLIC_API_URL'' = None"
      unfolding loaded_def by (rule validated_config_API_URL)
    have "env isUrl skipped pe = load isUrl skipped pe False"
      using noskip by (rule env_validated)
    also have "\<dots> = Inr loaded"
      unfolding loaded_def load_validated using valid by simp
    finally have "env isUrl skipped pe = Inr loaded" .
    with absent mode show "api_client_module isUrl skipped pe =
        Inr \<lparr>baseURL = ''http://localhost:3000/api'', timeout = 10000,
             default_headers = [(''Content-Type'', ''application/json'')]\<rparr>"
      by (simp add: api_client_module_def apiClient_def getBaseURL_cases)
  qed
  show "\<forall>v. \<not> truthy (pe ''SKIP_ENV_VALIDATION'') \<and> pe ''NODE_ENV'' = Some v \<and> v \<noteq> [] \<and>
        v \<noteq> ''development'' \<and> v \<noteq> ''test'' \<and> v \<noteq> ''production'' \<longrightarrow>
      (\<exists>issues. api_client_module isUrl skipped pe = Inl (EnvError (ConfigValidationError issues)) \<and>
                ''NODE_ENV'' \<in> set (map fst issues))"
  proof (intro allI impI, elim conjE)
    fix v
    assume noskip: "\<not> truthy (pe ''SKIP_ENV_VALIDATION'')"
      and v: "pe ''NODE_ENV'' = Some v" "v \<noteq> []"
        "v \<noteq> ''development''" "v \<noteq> ''test''" "v \<noteq> ''production''"
    let ?issues = "concat (map (field_issues isUrl (drop_empty_strings (runtimeEnv (env_options pe False))))
                     (server (env_options pe False) @ client (env_options pe False)))"
    from v have named: "''NODE_ENV'' \<in> set (violated_fields isUrl pe)"
      by (simp add: violated_fields_def declared_names_def rule_violated_def present_def)
    then have "violated_fields isUrl pe \<noteq> []"
      by auto
    then have "load isUrl skipped pe False = Inl (ConfigValidationError ?issues)"
      unfolding load_validated by simp
    moreover have "env isUrl skipped pe = load isUrl skipped pe False"
      using noskip by (rule env_validated)
    ultimately have "env isUrl skipped pe = Inl (ConfigValidationError ?issues)"
      by simp
    then have "api_client_module isUrl skipped pe = Inl (EnvError (ConfigValidationError ?issues))"
      by (simp only: api_client_module_def sum.case)
    moreover from named have "''NODE_ENV'' \<in> set (map fst ?issues)"
      unfolding issue_fields .
    ultimately show "\<exists>issues. api_client_module isUrl skipped pe =
        Inl (EnvError (ConfigValidationError issues)) \<and> ''NODE_ENV'' \<in> set (map fst issues)"
      by blast
  qed
qed

theorem production_read_from_process_env_witness:
  "api_client_module (\<lambda>s. take 7 s = ''http://'') (\<lambda>raw. raw) [''NODE_ENV'' \<mapsto> ''test''] =
     Inr \<lparr>baseURL = ''http://localhost:3000/api'', timeout = 10000,
          default_headers = [(''Content-Type'', ''application/json'')]\<rparr> \<and>
   api_client_module (\<lambda>s. take 7 s = ''http://'') (\<lambda>raw. raw) Map.empty =
     Inr \<lparr>baseURL = ''http://localhost:3000/api'', timeout = 10000,
          default_headers = [(''Content-Type'', ''application/json'')]\<rparr> \<and>
   api_client_module (\<lambda>s. take 7 s = ''http://'') (\<lambda>raw. raw)
       [''NODE_ENV'' \<mapsto> ''Production'', ''SKIP_ENV_VALIDATION'' \<mapsto> ''1''] =
     Inr \<lparr>baseURL = ''http://localhost:3000/api'', timeout = 10000,
          default_headers = [(''Content-Type'', ''application/json'')]\<rparr> \<and>
   (\<exists>issues. api_client_module (\<lambda>s. take 7 s = ''http://'') (\<lambda>raw. raw)
        [''NODE_ENV'' \<mapsto> ''staging''] = Inl (EnvError (ConfigValidationError issues)) \<and>
      ''NODE_ENV'' \<in> set (map fst issues))"
proof -
  let ?isUrl = "\<lambda>s. take 7 s = ''http://''"
  let ?skipped = "\<lambda>raw :: js_object. raw"
  let ?skip_env = "[''NODE_ENV'' \<mapsto> ''Production'', ''SKIP_ENV_VALIDATION'' \<mapsto> ''1'']"
  let ?cfg = "drop_empty_strings (runtimeEnv (env_options ?skip_env True))"
  have valid_test: "violated_fields ?isUrl [''NODE_ENV'' \<mapsto> ''test''] = []"
    by (simp add: violated_fields_def declared_names_def rule_violated_def present_def)
  have valid_empty: "violated_fields ?isUrl Map.empty = []"
    by (simp add: violated_fields_def declared_names_def rule_violated_def present_def)
  have loaded: "env ?isUrl ?skipped ?skip_env = Inr ?cfg"
    by (simp add: env_def load_def createEnv_def env_options_def)
  have no_url: "\<not> truthy (?cfg ''NEXT_PUBLIC_API_URL'')"
    by (simp add: raw_lookup present_def declared_names_def)
  have test: "api_client_module ?isUrl ?skipped [''NODE_ENV'' \<mapsto> ''test''] =
     Inr \<lparr>baseURL = ''http://localhost:3000/api'', timeout = 10000,
          default_headers = [(''Content-Type'', ''application/json'')]\<rparr>"
    using production_read_from_process_env [of Map.empty None "[''NODE_ENV'' \<mapsto> ''test'']"
        ?isUrl ?skipped] valid_test
    by simp
  have unset: "api_client_module ?isUrl ?skipped Map.empty =
     Inr \<lparr>baseURL = ''http://localhost:3000/api'', timeout = 10000,
          default_headers = [(''Content-Type'', ''application/json'')]\<rparr>"
    using production_read_from_process_env [of Map.empty None Map.empty ?isUrl ?skipped] valid_empty
    by simp
  have skipping: "api_client_module ?isUrl ?skipped ?skip_env =
     Inr \<lparr>baseURL = ''http://localhost:3000/api'', timeout = 10000,
          default_headers = [(''Content-Type'', ''application/json'')]\<rparr>"
    using production_read_from_process_env [of ?cfg None ?skip_env ?isUrl ?skipped] loaded no_url
    by simp
  have failing: "\<exists>issues. api_client_module ?isUrl ?skipped [''NODE_ENV'' \<mapsto> ''staging''] =
        Inl (EnvError (ConfigValidationError issues)) \<and> ''NODE_ENV'' \<in> set (map fst issues)"
    using production_read_from_process_env [of Map.empty None "[''NODE_ENV'' \<mapsto> ''staging'']"
        ?isUrl ?skipped]
    by simp
  from test unset skipping failing show ?thesis
    by (intro conjI)
qed

text \<open>
  The claim as first stated fails: with \<^verbatim>\<open>NODE_ENV=Production\<close>, no
  \<^verbatim>\<open>NEXT_PUBLIC_API_URL\<close> and validation on, evaluating the module does not yield
  a client with the localhost fallback; it stops in the environment module.
\<close>

theorem construction_fails_for_unknown_NODE_ENV:
  "api_client_module (\<lambda>s. take 7 s = ''http://'') (\<lambda>raw. raw) [''NODE_ENV'' \<mapsto> ''Production''] =
     Inl (EnvError (ConfigValidationError [(''NODE_ENV'', InvalidEnumValue)]))"
  by (simp add: api_client_module_def env_def load_def createEnv_def env_options_def validate_def
        drop_empty_strings_def object_literal_def)

end
